theory Spec2Isabelle
  imports
    Complex_Main
    "HOL-Library.Char_ord"
    "HOL-Library.List_Lexorder"
    "HOL-Library.Product_Lexorder"
    "HOL-Library.Multiset"
begin

section \<open>The store: three tables of \<open>data_collector.py\<close>\<close>

text \<open>
  A JSON number and an SQLite \<open>REAL\<close> are modelled as a rational; SQL \<open>NULL\<close> and
  Python's \<open>None\<close> are \<open>None\<close>. A table is the list of its rows in the order of
  their \<open>id\<close> (the \<open>INTEGER PRIMARY KEY\<close>, which no query of the program reads).
  Text is a list of bytes, compared bytewise as SQLite's BINARY collation does.
\<close>

record current_row =
  cur_city :: string
  cur_temperature :: "rat option"
  cur_humidity :: "rat option"
  cur_wind_speed :: "rat option"
  cur_collected_at :: string

record daily_row =
  day_city :: string
  day_date :: string
  day_temp_max :: "rat option"
  day_temp_min :: "rat option"
  day_precipitation :: "rat option"
  day_collected_at :: string

record hourly_row =
  hr_city :: string
  hr_hour :: string
  hr_temperature :: "rat option"
  hr_collected_at :: string

record store =
  weather_current :: "current_row list"
  weather_daily :: "daily_row list"
  weather_hourly :: "hourly_row list"

definition empty_store :: store where
  "empty_store = \<lparr>weather_current = [], weather_daily = [], weather_hourly = []\<rparr>"

text \<open>
  \<open>_init_db\<close>: \<open>CREATE TABLE IF NOT EXISTS\<close> for the three tables. The file on disk
  either does not exist yet (\<open>None\<close>) or holds the tables of an earlier run.
\<close>

definition init_db :: "store option \<Rightarrow> store" where
  "init_db disk = (case disk of None \<Rightarrow> empty_store | Some s \<Rightarrow> s)"

section \<open>The payload of the forecast API\<close>

record current_json =
  temperature_2m :: "rat option"
  relative_humidity_2m :: "rat option"
  wind_speed_10m :: "rat option"

text \<open>A key that is absent from \<open>daily\<close> or \<open>hourly\<close> reads as the empty list
  (\<open>daily.get('time', [])\<close>); an array element may be \<open>null\<close>.\<close>

record daily_json =
  daily_time :: "string list"
  temperature_2m_max :: "rat option list"
  temperature_2m_min :: "rat option list"
  precipitation_sum :: "rat option list"

record hourly_json =
  hourly_time :: "string list"
  hourly_temperature_2m :: "rat option list"

record api_data =
  data_current :: "current_json option"
  data_daily :: "daily_json option"
  data_hourly :: "hourly_json option"

record payload =
  item_city :: string
  item_data :: api_data
  item_collected_at :: string

section \<open>\<open>DataCollector._save_to_db\<close>\<close>

text \<open>\<open>xs[i] if i < len(xs) else None\<close>\<close>

definition get_or_none :: "'a option list \<Rightarrow> nat \<Rightarrow> 'a option" where
  "get_or_none xs i = (if i < length xs then xs ! i else None)"

text \<open>
  \<open>INSERT OR REPLACE\<close> into a table whose \<open>city\<close> column is \<open>UNIQUE\<close>: the rows
  that conflict on \<open>city\<close> are deleted, then the new row is inserted with a fresh id.
\<close>

definition insert_or_replace :: "current_row \<Rightarrow> current_row list \<Rightarrow> current_row list" where
  "insert_or_replace r t = filter (\<lambda>x. cur_city x \<noteq> cur_city r) t @ [r]"

definition save_current :: "payload \<Rightarrow> current_row list \<Rightarrow> current_row list" where
  "save_current item t =
     (case data_current (item_data item) of
        None \<Rightarrow> t
      | Some cur \<Rightarrow>
          insert_or_replace
            \<lparr>cur_city = item_city item,
             cur_temperature = temperature_2m cur,
             cur_humidity = relative_humidity_2m cur,
             cur_wind_speed = wind_speed_10m cur,
             cur_collected_at = item_collected_at item\<rparr> t)"

definition daily_rows :: "payload \<Rightarrow> daily_row list" where
  "daily_rows item =
     (case data_daily (item_data item) of
        None \<Rightarrow> []
      | Some d \<Rightarrow>
          map (\<lambda>(i, date).
                \<lparr>day_city = item_city item,
                 day_date = date,
                 day_temp_max = get_or_none (temperature_2m_max d) i,
                 day_temp_min = get_or_none (temperature_2m_min d) i,
                 day_precipitation = get_or_none (precipitation_sum d) i,
                 day_collected_at = item_collected_at item\<rparr>)
              (enumerate 0 (daily_time d)))"

definition hourly_rows :: "payload \<Rightarrow> hourly_row list" where
  "hourly_rows item =
     (case data_hourly (item_data item) of
        None \<Rightarrow> []
      | Some h \<Rightarrow>
          map (\<lambda>(i, hour).
                \<lparr>hr_city = item_city item,
                 hr_hour = hour,
                 hr_temperature = get_or_none (hourly_temperature_2m h) i,
                 hr_collected_at = item_collected_at item\<rparr>)
              (enumerate 0 (hourly_time h)))"

text \<open>One iteration of the loop over \<open>collected_data\<close>.\<close>

definition save_item :: "payload \<Rightarrow> store \<Rightarrow> store" where
  "save_item item s =
     \<lparr>weather_current = save_current item (weather_current s),
      weather_daily = weather_daily s @ daily_rows item,
      weather_hourly = weather_hourly s @ hourly_rows item\<rparr>"

definition save_to_db :: "payload list \<Rightarrow> store \<Rightarrow> store" where
  "save_to_db collected_data s = fold save_item collected_data s"

text \<open>
  The store after a sequence of collection runs on a fresh database, each run given by
  the payloads it collected (none, when every request of the run failed).
\<close>

definition run_collections :: "payload list list \<Rightarrow> store" where
  "run_collections runs = fold save_to_db runs (init_db None)"

section \<open>\<open>DataCollector\<close>: construction and the batch of requests\<close>

datatype py_error = TypeError

definition default_db_path :: string where
  "default_db_path = ''data/weather_data.db''"

text \<open>
  A constructor call, by the arguments the caller binds: \<open>forecast_days\<close>, \<open>db_path\<close>,
  each given or left out. Binding an argument that the signature of \<open>__init__\<close> does not
  have raises \<open>TypeError\<close> (unexpected keyword argument).
\<close>

record ctor_args =
  arg_forecast_days :: "int option"
  arg_db_path :: "string option"

record collector =
  base_url :: string
  forecast_days :: int
  collector_db_path :: string

text \<open>\<open>DataCollector.__init__(self, forecast_days: int = 10)\<close>\<close>

definition DataCollector_init :: "ctor_args \<Rightarrow> py_error + collector" where
  "DataCollector_init args =
     (case arg_db_path args of
        Some p \<Rightarrow> Inl TypeError
      | None \<Rightarrow>
          Inr \<lparr>base_url = ''https://api.open-meteo.com/v1/forecast'',
               forecast_days =
                 min (max (case arg_forecast_days args of None \<Rightarrow> 10 | Some d \<Rightarrow> d) 1) 16,
               collector_db_path = ''data/weather_data.db''\<rparr>)"

text \<open>\<open>__init__(self, db_path: str = 'data/weather_data.db')\<close> of \<open>DataAnalyzer\<close>,
  \<open>DataQuality\<close>, \<open>DataVisualizer\<close> and \<open>TemperatureChartGenerator\<close>: the object holds
  the path and nothing else.\<close>

definition reader_init :: "ctor_args \<Rightarrow> py_error + string" where
  "reader_init args =
     (case arg_forecast_days args of
        Some d \<Rightarrow> Inl TypeError
      | None \<Rightarrow> Inr (case arg_db_path args of None \<Rightarrow> ''data/weather_data.db'' | Some p \<Rightarrow> p))"

definition DataAnalyzer_init :: "ctor_args \<Rightarrow> py_error + string" where
  "DataAnalyzer_init = reader_init"

definition DataQuality_init :: "ctor_args \<Rightarrow> py_error + string" where
  "DataQuality_init = reader_init"

definition DataVisualizer_init :: "ctor_args \<Rightarrow> py_error + string" where
  "DataVisualizer_init = reader_init"

definition TemperatureChartGenerator_init :: "ctor_args \<Rightarrow> py_error + string" where
  "TemperatureChartGenerator_init = reader_init"

record city =
  city_name :: string
  city_lat :: rat
  city_lon :: rat

record request =
  req_url :: string
  req_latitude :: rat
  req_longitude :: rat
  req_forecast_days :: int

text \<open>
  What \<open>session.get\<close> does for one request: it raises (connection error, timeout after
  10 seconds, a body that is not JSON), or it answers with a status and a body.
\<close>

datatype http_result = Raised | Answered nat api_data

text \<open>
  The world outside: the answer to the \<open>k\<close>-th request issued and the clock reading
  taken for it. The requests issued so far are the state.
\<close>

record network =
  respond :: "nat \<Rightarrow> request \<Rightarrow> http_result"
  now :: "nat \<Rightarrow> string"

definition fetch_city_weather ::
  "network \<Rightarrow> collector \<Rightarrow> city \<Rightarrow> request list \<Rightarrow> payload option \<times> request list" where
  "fetch_city_weather net self c sent =
     (let params = \<lparr>req_url = base_url self, req_latitude = city_lat c,
                     req_longitude = city_lon c, req_forecast_days = forecast_days self\<rparr>;
          k = length sent
      in (case respond net k params of
            Raised \<Rightarrow> None
          | Answered status body \<Rightarrow>
              if status = 200
              then Some \<lparr>item_city = city_name c, item_data = body,
                         item_collected_at = now net k\<rparr>
              else None,
          sent @ [params]))"

text \<open>
  \<open>asyncio.gather\<close> returns the results in the order of the tasks; the tasks share no
  state, so they are run here one after the other in that order.
\<close>

fun gather ::
  "network \<Rightarrow> collector \<Rightarrow> city list \<Rightarrow> request list \<Rightarrow> payload option list \<times> request list" where
  "gather net self [] sent = ([], sent)"
| "gather net self (c # cs) sent =
     (let (r, sent1) = fetch_city_weather net self c sent;
          (rs, sent2) = gather net self cs sent1
      in (r # rs, sent2))"

definition collect_batch ::
  "network \<Rightarrow> collector \<Rightarrow> city list \<Rightarrow> request list \<times> store
     \<Rightarrow> payload list \<times> request list \<times> store" where
  "collect_batch net self cities w =
     (let (results, sent) = gather net self cities (fst w);
          collected = List.map_filter (\<lambda>r. r) results
      in (collected, sent, save_to_db collected (snd w)))"

section \<open>SQL and Python primitives used by the read-only components\<close>

text \<open>Python's truth value of a number that may be \<open>None\<close>: \<open>None\<close> and zero are false.\<close>

definition truthy :: "rat option \<Rightarrow> bool" where
  "truthy v = (case v of None \<Rightarrow> False | Some x \<Rightarrow> x \<noteq> 0)"

text \<open>The non-\<open>NULL\<close> values of a column: what every SQL aggregate ranges over.\<close>

definition non_null :: "'a option list \<Rightarrow> 'a list" where
  "non_null col = List.map_filter (\<lambda>v. v) col"

definition sql_count :: "'a option list \<Rightarrow> nat" where
  "sql_count col = length (non_null col)"

definition sql_avg :: "rat option list \<Rightarrow> rat option" where
  "sql_avg col =
     (case non_null col of [] \<Rightarrow> None
      | v # vs \<Rightarrow> Some (sum_list (v # vs) / of_nat (length (v # vs))))"

definition sql_min :: "rat option list \<Rightarrow> rat option" where
  "sql_min col = (case non_null col of [] \<Rightarrow> None | v # vs \<Rightarrow> Some (fold min vs v))"

definition sql_max :: "rat option list \<Rightarrow> rat option" where
  "sql_max col = (case non_null col of [] \<Rightarrow> None | v # vs \<Rightarrow> Some (fold max vs v))"

definition sql_sum :: "rat option list \<Rightarrow> rat option" where
  "sql_sum col = (case non_null col of [] \<Rightarrow> None | v # vs \<Rightarrow> Some (sum_list (v # vs)))"

definition sql_sub :: "rat option \<Rightarrow> rat option \<Rightarrow> rat option" where
  "sql_sub a b = (case (a, b) of (Some x, Some y) \<Rightarrow> Some (x - y) | _ \<Rightarrow> None)"

text \<open>SQLite's \<open>/\<close> yields \<open>NULL\<close> when the divisor is zero.\<close>

definition sql_div :: "rat \<Rightarrow> rat \<Rightarrow> rat option" where
  "sql_div a b = (if b = 0 then None else Some (a / b))"

text \<open>\<open>ROUND(x, 1)\<close>: to one decimal, halves away from zero; \<open>NULL\<close> stays \<open>NULL\<close>.\<close>

definition round1 :: "rat \<Rightarrow> rat" where
  "round1 x =
     (if 0 \<le> x then of_int \<lfloor>x * 10 + 1 / 2\<rfloor> / 10
      else - (of_int \<lfloor>- x * 10 + 1 / 2\<rfloor> / 10))"

definition sql_round1 :: "rat option \<Rightarrow> rat option" where
  "sql_round1 v = map_option round1 v"

text \<open>
  \<open>GROUP BY city\<close>: one group per distinct city. SQLite walks the groups in ascending
  order of the key.
\<close>

definition group_keys :: "string list \<Rightarrow> string list" where
  "group_keys cs = sort (remdups cs)"

text \<open>
  A Python dict whose values are lists, as an association list in insertion order:
  \<open>if k not in d: d[k] = []\<close> followed by \<open>d[k].append(v)\<close>.
\<close>

fun dict_append :: "'k \<Rightarrow> 'v \<Rightarrow> ('k \<times> 'v list) list \<Rightarrow> ('k \<times> 'v list) list" where
  "dict_append k v [] = [(k, [v])]"
| "dict_append k v ((k', vs) # d) =
     (if k = k' then (k', vs @ [v]) # d else (k', vs) # dict_append k v d)"

section \<open>\<open>DataAnalyzer\<close>\<close>

record trend_entry =
  trend_date :: string
  trend_max :: "rat option"
  trend_min :: "rat option"
  trend_avg :: "rat option"

text \<open>\<open>avg_t = (max_t + min_t) / 2 if max_t and min_t else None\<close>\<close>

definition avg_t :: "rat option \<Rightarrow> rat option \<Rightarrow> rat option" where
  "avg_t max_t min_t =
     (if truthy max_t \<and> truthy min_t
      then (case (max_t, min_t) of (Some a, Some b) \<Rightarrow> Some ((a + b) / 2) | _ \<Rightarrow> None)
      else None)"

definition trend_of_row :: "daily_row \<Rightarrow> trend_entry" where
  "trend_of_row r =
     \<lparr>trend_date = day_date r, trend_max = day_temp_max r, trend_min = day_temp_min r,
      trend_avg = avg_t (day_temp_max r) (day_temp_min r)\<rparr>"

text \<open>\<open>SELECT city, date, temp_max, temp_min FROM weather_daily ORDER BY city, date\<close>\<close>

definition daily_ordered :: "store \<Rightarrow> daily_row list" where
  "daily_ordered s = sort_key (\<lambda>r. (day_city r, day_date r)) (weather_daily s)"

definition analyze_temperature_trends :: "store \<Rightarrow> (string \<times> trend_entry list) list" where
  "analyze_temperature_trends s =
     fold (\<lambda>r trends. dict_append (day_city r) (trend_of_row r) trends) (daily_ordered s) []"

text \<open>
  \<open>TemperatureChartGenerator._get_daily_data\<close> reads the same rows and lets SQL compute
  \<open>(temp_max + temp_min) / 2 as temp_avg\<close>, which is \<open>NULL\<close> only for a \<open>NULL\<close> bound.
\<close>

definition sql_temp_avg :: "rat option \<Rightarrow> rat option \<Rightarrow> rat option" where
  "sql_temp_avg a b = (case (a, b) of (Some x, Some y) \<Rightarrow> Some ((x + y) / 2) | _ \<Rightarrow> None)"

datatype insight_type = Temperature | Precipitation | Climate_comparison
datatype severity = HIGH | MEDIUM | LOW
datatype direction = Warmer | Colder

text \<open>
  The message of an insight is a fixed sentence around formatted values; the model keeps
  which sentence it is and the values it shows. The recommendation is one of four fixed
  sentences.
\<close>

datatype message =
    High_avg_max rat
  | Severe_frost rat
  | Heavy_precipitation rat nat
  | Far_from_average string direction

datatype recommendation = Prepare_cooling | Ready_heating | Monitor_floods | Track_seasons

record insight =
  ins_type :: insight_type
  ins_city :: string
  ins_severity :: severity
  ins_message :: message
  ins_recommendation :: recommendation

definition daily_of :: "store \<Rightarrow> string \<Rightarrow> daily_row list" where
  "daily_of s c = filter (\<lambda>r. day_city r = c) (weather_daily s)"

text \<open>\<open>SELECT city, AVG(temp_max), MIN(temp_min) FROM weather_daily GROUP BY city\<close>\<close>

definition temperature_stats :: "store \<Rightarrow> (string \<times> rat option \<times> rat option) list" where
  "temperature_stats s =
     map (\<lambda>c. (c, sql_avg (map day_temp_max (daily_of s c)),
                  sql_min (map day_temp_min (daily_of s c))))
         (group_keys (map day_city (weather_daily s)))"

definition temperature_insights :: "string \<times> rat option \<times> rat option \<Rightarrow> insight list" where
  "temperature_insights row =
     (case row of (c, avg_max, min_temp) \<Rightarrow>
        (case avg_max of
           Some a \<Rightarrow>
             if truthy avg_max \<and> a > 25
             then [\<lparr>ins_type = Temperature, ins_city = c, ins_severity = HIGH,
                    ins_message = High_avg_max a, ins_recommendation = Prepare_cooling\<rparr>]
             else []
         | None \<Rightarrow> [])
        @
        (case min_temp of
           Some m \<Rightarrow>
             if truthy min_temp \<and> m < - 10
             then [\<lparr>ins_type = Temperature, ins_city = c, ins_severity = HIGH,
                    ins_message = Severe_frost m, ins_recommendation = Ready_heating\<rparr>]
             else []
         | None \<Rightarrow> []))"

text \<open>\<open>SELECT city, SUM(precipitation), COUNT(*) FROM weather_daily
  WHERE precipitation > 0 GROUP BY city\<close>\<close>

definition rainy :: "daily_row \<Rightarrow> bool" where
  "rainy r = (case day_precipitation r of None \<Rightarrow> False | Some p \<Rightarrow> p > 0)"

definition precipitation_stats :: "store \<Rightarrow> (string \<times> rat option \<times> nat) list" where
  "precipitation_stats s =
     (let wet = filter rainy (weather_daily s)
      in map (\<lambda>c. (c, sql_sum (map day_precipitation (filter (\<lambda>r. day_city r = c) wet)),
                      length (filter (\<lambda>r. day_city r = c) wet)))
             (group_keys (map day_city wet)))"

definition precipitation_insights :: "string \<times> rat option \<times> nat \<Rightarrow> insight list" where
  "precipitation_insights row =
     (case row of (c, total_precip, rainy_days) \<Rightarrow>
        (case total_precip of
           Some t \<Rightarrow>
             if truthy total_precip \<and> t > 50
             then [\<lparr>ins_type = Precipitation, ins_city = c, ins_severity = MEDIUM,
                    ins_message = Heavy_precipitation t rainy_days,
                    ins_recommendation = Monitor_floods\<rparr>]
             else []
         | None \<Rightarrow> []))"

text \<open>\<open>SELECT city, AVG(temp_max) FROM weather_daily GROUP BY city\<close> and the comparison
  of every city with the mean of the truthy city averages.\<close>

definition cities_data :: "store \<Rightarrow> (string \<times> rat option) list" where
  "cities_data s =
     map (\<lambda>c. (c, sql_avg (map day_temp_max (daily_of s c))))
         (group_keys (map day_city (weather_daily s)))"

definition comparison_insights :: "(string \<times> rat option) list \<Rightarrow> insight list" where
  "comparison_insights cd =
     (let temps = non_null (filter truthy (map snd cd))
      in if temps = [] then []
         else
           (let avg_global = sum_list temps / of_nat (length temps)
            in concat
                 (map (\<lambda>(c, city_temp).
                        (case city_temp of
                           Some t \<Rightarrow>
                             if truthy city_temp \<and> \<bar>t - avg_global\<bar> > 10
                             then [\<lparr>ins_type = Climate_comparison, ins_city = c,
                                    ins_severity = LOW,
                                    ins_message =
                                      Far_from_average c
                                        (if t > avg_global then Warmer else Colder),
                                    ins_recommendation = Track_seasons\<rparr>]
                             else []
                         | None \<Rightarrow> []))
                      cd)))"

definition generate_insights :: "store \<Rightarrow> insight list" where
  "generate_insights s =
     concat (map temperature_insights (temperature_stats s))
     @ concat (map precipitation_insights (precipitation_stats s))
     @ comparison_insights (cities_data s)"

section \<open>\<open>DataQuality\<close>\<close>

definition current_of :: "store \<Rightarrow> string \<Rightarrow> current_row list" where
  "current_of s c = filter (\<lambda>r. cur_city r = c) (weather_current s)"

subsection \<open>\<open>check_completeness\<close>\<close>

record completeness_row =
  cmp_city :: string
  cmp_total :: nat
  cmp_temp_filled :: nat
  cmp_humid_filled :: nat
  cmp_wind_filled :: nat
  cmp_completeness :: "rat option"

text \<open>\<open>SELECT city, COUNT(*), COUNT(temperature), COUNT(humidity), COUNT(wind_speed),
  ROUND(COUNT(temperature)*100.0/COUNT(*), 1) FROM weather_current GROUP BY city\<close>\<close>

definition completeness_query :: "store \<Rightarrow> completeness_row list" where
  "completeness_query s =
     map (\<lambda>c.
            \<lparr>cmp_city = c,
             cmp_total = length (current_of s c),
             cmp_temp_filled = sql_count (map cur_temperature (current_of s c)),
             cmp_humid_filled = sql_count (map cur_humidity (current_of s c)),
             cmp_wind_filled = sql_count (map cur_wind_speed (current_of s c)),
             cmp_completeness =
               sql_round1
                 (sql_div (of_nat (sql_count (map cur_temperature (current_of s c))) * 100)
                          (of_nat (length (current_of s c))))\<rparr>)
         (group_keys (map cur_city (weather_current s)))"

record completeness_entry =
  total_records :: nat
  temperature_filled :: nat
  humidity_filled :: nat
  wind_filled :: nat
  completeness_percent :: rat

datatype status = OK | ATTENTION

text \<open>
  The loop over the rows: every row adds the city's entry to \<open>results\<close> and logs a status
  line. \<open>completeness >= 95\<close> raises \<open>TypeError\<close> when the value is \<open>None\<close>.
\<close>

fun completeness_loop ::
  "completeness_row list
     \<Rightarrow> py_error + ((string \<times> completeness_entry) list \<times> (status \<times> string \<times> rat) list)" where
  "completeness_loop [] = Inr ([], [])"
| "completeness_loop (row # rows) =
     (case cmp_completeness row of
        None \<Rightarrow> Inl TypeError
      | Some completeness \<Rightarrow>
          (case completeness_loop rows of
             Inl e \<Rightarrow> Inl e
           | Inr (results, logged) \<Rightarrow>
               Inr ((cmp_city row,
                     \<lparr>total_records = cmp_total row,
                      temperature_filled = cmp_temp_filled row,
                      humidity_filled = cmp_humid_filled row,
                      wind_filled = cmp_wind_filled row,
                      completeness_percent = completeness\<rparr>) # results,
                    (if completeness \<ge> 95 then OK else ATTENTION, cmp_city row, completeness)
                      # logged)))"

definition check_completeness ::
  "store \<Rightarrow> py_error + ((string \<times> completeness_entry) list \<times> (status \<times> string \<times> rat) list)" where
  "check_completeness s = completeness_loop (completeness_query s)"

subsection \<open>\<open>check_outliers\<close>\<close>

datatype outlier_type = Extreme_range | Extreme_cold | Extreme_heat

text \<open>An outlier's message is its value formatted into the sentence of its type.\<close>

record outlier =
  out_type :: outlier_type
  out_value :: rat

record anomaly_entry =
  an_records :: nat
  an_avg_temp :: "rat option"
  an_min_temp :: "rat option"
  an_max_temp :: "rat option"
  an_range :: "rat option"
  an_anomalies :: "outlier list"
  an_has_issues :: bool

definition flag :: "outlier_type \<Rightarrow> rat option \<Rightarrow> (rat \<Rightarrow> bool) \<Rightarrow> outlier list" where
  "flag ty v beyond =
     (case v of
        Some x \<Rightarrow> if truthy v \<and> beyond x then [\<lparr>out_type = ty, out_value = x\<rparr>] else []
      | None \<Rightarrow> [])"

definition outliers_of :: "rat option \<Rightarrow> rat option \<Rightarrow> rat option \<Rightarrow> outlier list" where
  "outliers_of temp_range min_temp max_temp =
     flag Extreme_range temp_range (\<lambda>x. x > 40)
     @ flag Extreme_cold min_temp (\<lambda>x. x < - 60)
     @ flag Extreme_heat max_temp (\<lambda>x. x > 60)"

text \<open>\<open>SELECT city, COUNT(*), AVG(temperature), MIN(temperature), MAX(temperature),
  (MAX(temperature) - MIN(temperature)) FROM weather_current GROUP BY city\<close>\<close>

definition outlier_entry :: "store \<Rightarrow> string \<Rightarrow> anomaly_entry" where
  "outlier_entry s c =
     (let temps = map cur_temperature (current_of s c);
          min_temp = sql_min temps;
          max_temp = sql_max temps;
          temp_range = sql_sub max_temp min_temp;
          outliers = outliers_of temp_range min_temp max_temp
      in \<lparr>an_records = length (current_of s c),
          an_avg_temp = sql_avg temps,
          an_min_temp = min_temp,
          an_max_temp = max_temp,
          an_range = temp_range,
          an_anomalies = outliers,
          an_has_issues = (length outliers > 0)\<rparr>)"

definition check_outliers :: "store \<Rightarrow> (string \<times> anomaly_entry) list" where
  "check_outliers s =
     map (\<lambda>c. (c, outlier_entry s c)) (group_keys (map cur_city (weather_current s)))"

subsection \<open>\<open>check_validity\<close>\<close>

text \<open>
  \<open>SELECT city, COUNT(*) FROM weather_current WHERE col < lo OR col > hi\<close> has an
  aggregate and no \<open>GROUP BY\<close>: it returns exactly one row, the count over the whole
  table, with \<open>city\<close> read from one of the matching rows (\<open>NULL\<close> when none matches).
  Which row SQLite reads it from is not specified; \<open>pick\<close> is that choice.
\<close>

definition out_of_range :: "rat \<Rightarrow> rat \<Rightarrow> rat option \<Rightarrow> bool" where
  "out_of_range lo hi v = (case v of None \<Rightarrow> False | Some x \<Rightarrow> x < lo \<or> x > hi)"

definition invalid_query ::
  "(current_row list \<Rightarrow> current_row) \<Rightarrow> (current_row \<Rightarrow> rat option) \<Rightarrow> rat \<Rightarrow> rat
     \<Rightarrow> store \<Rightarrow> (string option \<times> nat) list" where
  "invalid_query pick col lo hi s =
     (let hits = filter (\<lambda>r. out_of_range lo hi (col r)) (weather_current s)
      in [(if hits = [] then None else Some (cur_city (pick hits)), length hits)])"

datatype issue = Invalid_temperature nat | Invalid_humidity nat

text \<open>\<open>if city not in issues: issues[city] = []\<close>, then
  \<open>if invalid > 0: issues[city].append(...)\<close>\<close>

fun dict_touch :: "'k \<Rightarrow> ('k \<times> 'v list) list \<Rightarrow> ('k \<times> 'v list) list" where
  "dict_touch k [] = [(k, [])]"
| "dict_touch k ((k', vs) # d) = (if k = k' then (k', vs) # d else (k', vs) # dict_touch k d)"

definition note_invalid ::
  "(nat \<Rightarrow> issue) \<Rightarrow> string option \<times> nat \<Rightarrow> (string option \<times> issue list) list
     \<Rightarrow> (string option \<times> issue list) list" where
  "note_invalid mk row issues =
     (case row of (c, invalid) \<Rightarrow>
        (let issues1 = dict_touch c issues
         in if invalid > 0 then dict_append c (mk invalid) issues1 else issues1))"

datatype validity_check = Issues "(string option \<times> issue list) list" | No_problems_found

definition check_validity :: "(current_row list \<Rightarrow> current_row) \<Rightarrow> store \<Rightarrow> validity_check" where
  "check_validity pick s =
     (let issues0 = fold (note_invalid Invalid_temperature)
                      (invalid_query pick cur_temperature (- 50) 50 s) [];
          issues = fold (note_invalid Invalid_humidity)
                     (invalid_query pick cur_humidity 0 100 s) issues0
      in if issues \<noteq> [] then Issues issues else No_problems_found)"

text \<open>The number of rows of one city whose column is out of range: the count the issue
  list of that city is meant to show.\<close>

definition invalid_count :: "(current_row \<Rightarrow> rat option) \<Rightarrow> rat \<Rightarrow> rat \<Rightarrow> store \<Rightarrow> string \<Rightarrow> nat" where
  "invalid_count col lo hi s c =
     length (filter (\<lambda>r. out_of_range lo hi (col r)) (current_of s c))"

subsection \<open>\<open>generate_quality_report\<close>\<close>

text \<open>
  \<open>avg_completeness = sum(scores) / len(scores) if scores else 0\<close>,
  \<open>quality_score = max(0, min(100, avg_completeness - anomaly_count * 2))\<close>
\<close>

definition avg_completeness :: "rat list \<Rightarrow> rat" where
  "avg_completeness scores =
     (if scores \<noteq> [] then sum_list scores / of_nat (length scores) else 0)"

definition quality_score :: "rat list \<Rightarrow> nat \<Rightarrow> rat" where
  "quality_score scores anomaly_count =
     max 0 (min 100 (avg_completeness scores - of_nat anomaly_count * 2))"

definition anomaly_count :: "(string \<times> anomaly_entry) list \<Rightarrow> nat" where
  "anomaly_count anomalies = sum_list (map (\<lambda>(c, a). length (an_anomalies a)) anomalies)"

record quality_report =
  rep_date :: string
  rep_completeness :: "(string \<times> completeness_entry) list"
  rep_anomalies :: "(string \<times> anomaly_entry) list"
  rep_validity :: validity_check
  rep_quality_score :: rat
  rep_avg_completeness :: rat
  rep_total_anomalies :: nat
  rep_cities_analyzed :: nat

definition generate_quality_report ::
  "(current_row list \<Rightarrow> current_row) \<Rightarrow> string \<Rightarrow> store \<Rightarrow> py_error + quality_report" where
  "generate_quality_report pick today s =
     (case check_completeness s of
        Inl e \<Rightarrow> Inl e
      | Inr (completeness, logged) \<Rightarrow>
          (let anomalies = check_outliers s;
               validity = check_validity pick s;
               completeness_scores = map (\<lambda>(c, e). completeness_percent e) completeness
           in Inr \<lparr>rep_date = today,
                   rep_completeness = completeness,
                   rep_anomalies = anomalies,
                   rep_validity = validity,
                   rep_quality_score =
                     quality_score completeness_scores (anomaly_count anomalies),
                   rep_avg_completeness = avg_completeness completeness_scores,
                   rep_total_anomalies = anomaly_count anomalies,
                   rep_cities_analyzed = length completeness\<rparr>))"

section \<open>Measures and concrete inputs used in the statements\<close>

text \<open>The request \<open>fetch_city_weather\<close> sends for a city.\<close>

definition request_for :: "collector \<Rightarrow> city \<Rightarrow> request" where
  "request_for self c =
     \<lparr>req_url = base_url self, req_latitude = city_lat c, req_longitude = city_lon c,
      req_forecast_days = forecast_days self\<rparr>"

text \<open>The number of entries of the \<open>time\<close> array of a payload's daily and hourly part.\<close>

definition daily_entries :: "payload \<Rightarrow> nat" where
  "daily_entries item =
     (case data_daily (item_data item) of None \<Rightarrow> 0 | Some d \<Rightarrow> length (daily_time d))"

definition hourly_entries :: "payload \<Rightarrow> nat" where
  "hourly_entries item =
     (case data_hourly (item_data item) of None \<Rightarrow> 0 | Some h \<Rightarrow> length (hourly_time h))"

text \<open>The non-\<open>NULL\<close> temperatures stored for a city in \<open>weather_current\<close>.\<close>

definition stored_temps :: "store \<Rightarrow> string \<Rightarrow> rat list" where
  "stored_temps s c = non_null (map cur_temperature (current_of s c))"

definition flags_of :: "anomaly_entry \<Rightarrow> outlier_type set" where
  "flags_of a = out_type ` set (an_anomalies a)"

text \<open>A payload with three days of forecast for one city: maxima 30, 28, 32 and
  minima 20, 19, 21.\<close>

definition scenario_item :: payload where
  "scenario_item =
     \<lparr>item_city = ''Sochi'',
      item_data =
        \<lparr>data_current = None,
         data_daily = Some \<lparr>daily_time = [''2024-07-01'', ''2024-07-02'', ''2024-07-03''],
                            temperature_2m_max = [Some 30, Some 28, Some 32],
                            temperature_2m_min = [Some 20, Some 19, Some 21],
                            precipitation_sum = []\<rparr>,
         data_hourly = None\<rparr>,
      item_collected_at = ''2024-07-01T06:00:00''\<rparr>"

text \<open>A payload with one winter day whose maximum is exactly 0 degrees.\<close>

definition frost_item :: payload where
  "frost_item =
     \<lparr>item_city = ''Omsk'',
      item_data =
        \<lparr>data_current = None,
         data_daily = Some \<lparr>daily_time = [''2024-01-10''],
                            temperature_2m_max = [Some 0],
                            temperature_2m_min = [Some (- 4)],
                            precipitation_sum = [Some 0]\<rparr>,
         data_hourly = None\<rparr>,
      item_collected_at = ''2024-01-10T06:00:00''\<rparr>"

text \<open>A payload that carries only a current observation.\<close>

definition current_item :: "string \<Rightarrow> rat option \<Rightarrow> rat option \<Rightarrow> payload" where
  "current_item c t h =
     \<lparr>item_city = c,
      item_data =
        \<lparr>data_current = Some \<lparr>temperature_2m = t, relative_humidity_2m = h,
                                wind_speed_10m = Some 3\<rparr>,
         data_daily = None, data_hourly = None\<rparr>,
      item_collected_at = ''2024-01-10T06:00:00''\<rparr>"

text \<open>One run that stored a current temperature beyond the valid range for two cities.\<close>

definition two_invalid_cities :: store where
  "two_invalid_cities =
     run_collections [[current_item ''Omsk'' (Some (- 55)) (Some 60),
                       current_item ''Sochi'' (Some 70) (Some 60)]]"

text \<open>One run that stored -70 degrees for one city and 20 degrees for another.\<close>

definition cold_and_mild :: store where
  "cold_and_mild =
     run_collections [[current_item ''Omsk'' (Some (- 70)) (Some 60),
                       current_item ''Sochi'' (Some 20) (Some 60)]]"

text \<open>
  What the \<open>k\<close>-th request, sent for city \<open>c\<close>, contributes to the results of a batch,
  and whether it was answered with status 200.
\<close>

definition outcome :: "network \<Rightarrow> collector \<Rightarrow> nat \<times> city \<Rightarrow> payload option" where
  "outcome net self kc =
     (case kc of (k, c) \<Rightarrow>
        (case respond net k (request_for self c) of
           Raised \<Rightarrow> None
         | Answered status body \<Rightarrow>
             if status = 200
             then Some \<lparr>item_city = city_name c, item_data = body, item_collected_at = now net k\<rparr>
             else None))"

definition succeeded :: "network \<Rightarrow> collector \<Rightarrow> nat \<times> city \<Rightarrow> bool" where
  "succeeded net self kc =
     (case kc of (k, c) \<Rightarrow>
        (case respond net k (request_for self c) of
           Raised \<Rightarrow> False
         | Answered status body \<Rightarrow> status = 200))"


text \<open>A network whose first request raises, whose second is answered with status 500 and
  whose later ones are answered with status 200; a collector built with the defaults; three
  of the default cities.\<close>

definition no_data :: api_data where
  "no_data = \<lparr>data_current = None, data_daily = None, data_hourly = None\<rparr>"

definition flaky_net :: network where
  "flaky_net =
     \<lparr>respond = (\<lambda>k r. if k = 0 then Raised
                        else if k = 1 then Answered 500 no_data
                        else Answered 200 (item_data scenario_item)),
      now = (\<lambda>k. ''2024-07-01T06:00:00'')\<rparr>"

definition default_collector :: collector where
  "default_collector =
     \<lparr>base_url = ''https://api.open-meteo.com/v1/forecast'', forecast_days = 10,
      collector_db_path = ''data/weather_data.db''\<rparr>"

definition three_cities :: "city list" where
  "three_cities =
     [\<lparr>city_name = ''Omsk'', city_lat = 549885 / 10000, city_lon = 733242 / 10000\<rparr>,
      \<lparr>city_name = ''Kazan'', city_lat = 557964 / 10000, city_lon = 491061 / 10000\<rparr>,
      \<lparr>city_name = ''Sochi'', city_lat = 436028 / 10000, city_lon = 397314 / 10000\<rparr>]"

text \<open>A daily row with both temperature bounds present, and the HIGH-severity heat
  insight for a city with a given average maximum.\<close>

definition scenario_row ::
  "string \<Rightarrow> string \<Rightarrow> rat \<Rightarrow> rat \<Rightarrow> rat option \<Rightarrow> string \<Rightarrow> daily_row" where
  "scenario_row c d hi lo p t =
     \<lparr>day_city = c, day_date = d, day_temp_max = Some hi, day_temp_min = Some lo,
      day_precipitation = p, day_collected_at = t\<rparr>"

definition heat_insight :: "string \<Rightarrow> rat \<Rightarrow> insight" where
  "heat_insight c a =
     \<lparr>ins_type = Temperature, ins_city = c, ins_severity = HIGH,
      ins_message = High_avg_max a, ins_recommendation = Prepare_cooling\<rparr>"

text \<open>A store whose daily table holds the three days of the scenario newest first.\<close>

definition scenario_reversed :: store where
  "scenario_reversed =
     \<lparr>weather_current = [],
      weather_daily =
        [scenario_row ''Sochi'' ''2024-07-03'' 32 21 (Some 0) ''2024-07-03T06:00:00'',
         scenario_row ''Sochi'' ''2024-07-02'' 28 19 None ''2024-07-02T06:00:00'',
         scenario_row ''Sochi'' ''2024-07-01'' 30 20 (Some 4) ''2024-07-01T06:00:00''],
      weather_hourly = []\<rparr>"

section \<open>The analyzer on concrete stores\<close>

text \<open>What \<open>avg_t\<close> computes when both bounds are present: the mean only when neither
  bound is zero.\<close>

lemma avg_t_Some:
  "avg_t (Some a) (Some b) = (if a \<noteq> 0 \<and> b \<noteq> 0 then Some ((a + b) / 2) else None)"
  by (simp add: avg_t_def truthy_def)

lemma avg_t_None: "avg_t None b = None" "avg_t a None = None"
  by (simp_all add: avg_t_def truthy_def)

text \<open>
  C1. The trends operation on a stored daily row with maximum 0 and minimum -4: both
  bounds are present, yet the entry's average is null, where (max+min)/2 is -2, the value the
  chart generator's query computes for the same row.
\<close>

theorem trends_avg_null_at_zero_bound:
  "analyze_temperature_trends (run_collections [[frost_item]]) =
     [(''Omsk'',
       [\<lparr>trend_date = ''2024-01-10'', trend_max = Some 0, trend_min = Some (- 4),
          trend_avg = None\<rparr>])]
   \<and> sql_temp_avg (Some 0) (Some (- 4)) = Some (- 2)"
  by code_simp

section \<open>The validity check on a concrete store\<close>

text \<open>
  C5. The validity check on a store where two cities each hold one temperature out of
  range: whichever row SQLite reads the city from, the result names a single city and
  attributes both violations to it, while each city's own count is 1; the key for the
  humidity query, which matched nothing, is null.
\<close>

theorem validity_counts_not_per_city:
  "check_validity pick two_invalid_cities =
     Issues [(Some (cur_city (pick (weather_current two_invalid_cities))),
              [Invalid_temperature 2]),
             (None, [])]
   \<and> invalid_count cur_temperature (- 50) 50 two_invalid_cities ''Omsk'' = 1
   \<and> invalid_count cur_temperature (- 50) 50 two_invalid_cities ''Sochi'' = 1"
  by code_simp

section \<open>Facts about the store and the queries\<close>

lemma set_group_keys: "set (group_keys cs) = set cs"
  by (simp add: group_keys_def)

lemma distinct_group_keys: "distinct (group_keys cs)"
  by (simp add: group_keys_def)

lemma current_of_nonempty:
  "c \<in> set (group_keys (map cur_city (weather_current s))) \<Longrightarrow> current_of s c \<noteq> []"
  by (auto simp: set_group_keys current_of_def filter_empty_conv)

lemma completeness_loop_total:
  "\<forall>row\<in>set rows. cmp_completeness row \<noteq> None \<Longrightarrow>
   completeness_loop rows =
     Inr (map (\<lambda>row. (cmp_city row,
                       \<lparr>total_records = cmp_total row,
                        temperature_filled = cmp_temp_filled row,
                        humidity_filled = cmp_humid_filled row,
                        wind_filled = cmp_wind_filled row,
                        completeness_percent = the (cmp_completeness row)\<rparr>)) rows,
          map (\<lambda>row. (if the (cmp_completeness row) \<ge> 95 then OK else ATTENTION,
                       cmp_city row, the (cmp_completeness row))) rows)"
  by (induction rows) auto

lemma completeness_query_Some:
  "\<forall>row\<in>set (completeness_query s). cmp_completeness row \<noteq> None"
  by (auto simp: completeness_query_def sql_round1_def sql_div_def dest: current_of_nonempty)

lemma check_completeness_eq:
  "check_completeness s =
     Inr (map (\<lambda>row. (cmp_city row,
                       \<lparr>total_records = cmp_total row,
                        temperature_filled = cmp_temp_filled row,
                        humidity_filled = cmp_humid_filled row,
                        wind_filled = cmp_wind_filled row,
                        completeness_percent = the (cmp_completeness row)\<rparr>))
              (completeness_query s),
          map (\<lambda>row. (if the (cmp_completeness row) \<ge> 95 then OK else ATTENTION,
                       cmp_city row, the (cmp_completeness row)))
              (completeness_query s))"
  unfolding check_completeness_def
  by (rule completeness_loop_total) (rule completeness_query_Some)

lemma round1_close: "\<bar>round1 x - x\<bar> \<le> 1 / 20"
proof (cases "0 \<le> x")
  case True
  define n where "n = \<lfloor>x * 10 + 1 / 2\<rfloor>"
  have "of_int n \<le> x * 10 + 1 / 2" "x * 10 + 1 / 2 < of_int n + 1"
    unfolding n_def by linarith+
  then have "\<bar>of_int n / 10 - x\<bar> \<le> 1 / 20" by linarith
  with True show ?thesis by (simp add: round1_def n_def)
next
  case False
  define n where "n = \<lfloor>- x * 10 + 1 / 2\<rfloor>"
  have "of_int n \<le> - x * 10 + 1 / 2" "- x * 10 + 1 / 2 < of_int n + 1"
    unfolding n_def by linarith+
  then have "\<bar>- (of_int n / 10) - x\<bar> \<le> 1 / 20" by linarith
  with False show ?thesis by (simp add: round1_def n_def)
qed

lemma round1_tenths: "round1 x * 10 \<in> \<int>"
  by (simp add: round1_def)

lemma round1_0: "round1 0 = 0"
  by (simp add: round1_def floor_eq_iff)

lemma round1_100: "round1 100 = 100"
  by (simp add: round1_def floor_eq_iff)

lemma distinct_insert_or_replace:
  "distinct (map cur_city t) \<Longrightarrow> distinct (map cur_city (insert_or_replace r t))"
  by (auto simp: insert_or_replace_def distinct_map_filter)

lemma distinct_save_current:
  "distinct (map cur_city t) \<Longrightarrow> distinct (map cur_city (save_current item t))"
  by (simp add: save_current_def distinct_insert_or_replace split: option.splits)

lemma distinct_save_item:
  "distinct (map cur_city (weather_current s))
   \<Longrightarrow> distinct (map cur_city (weather_current (save_item item s)))"
  by (simp add: save_item_def distinct_save_current)

lemma distinct_save_to_db:
  "distinct (map cur_city (weather_current s))
   \<Longrightarrow> distinct (map cur_city (weather_current (save_to_db items s)))"
  unfolding save_to_db_def
  by (induction items arbitrary: s) (simp_all add: distinct_save_item)

lemma distinct_fold_save_to_db:
  "distinct (map cur_city (weather_current s))
   \<Longrightarrow> distinct (map cur_city (weather_current (fold save_to_db runs s)))"
  by (induction runs arbitrary: s) (simp_all add: distinct_save_to_db)

lemma distinct_run_collections:
  "distinct (map cur_city (weather_current (run_collections runs)))"
  unfolding run_collections_def
  by (rule distinct_fold_save_to_db) (simp add: init_db_def empty_store_def)

lemma daily_save_to_db:
  "weather_daily (save_to_db items s) = weather_daily s @ concat (map daily_rows items)"
  unfolding save_to_db_def
  by (induction items arbitrary: s) (simp_all add: save_item_def)

lemma hourly_save_to_db:
  "weather_hourly (save_to_db items s) = weather_hourly s @ concat (map hourly_rows items)"
  unfolding save_to_db_def
  by (induction items arbitrary: s) (simp_all add: save_item_def)

lemma run_collections_snoc:
  "run_collections (runs @ [items]) = save_to_db items (run_collections runs)"
  by (simp add: run_collections_def)

lemma length_daily_rows: "length (daily_rows item) = daily_entries item"
  by (simp add: daily_rows_def daily_entries_def split: option.splits)

lemma length_hourly_rows: "length (hourly_rows item) = hourly_entries item"
  by (simp add: hourly_rows_def hourly_entries_def split: option.splits)

lemma length_concat_daily:
  "length (concat (map daily_rows items)) = sum_list (map daily_entries items)"
  by (induction items) (simp_all add: length_daily_rows)

lemma length_concat_hourly:
  "length (concat (map hourly_rows items)) = sum_list (map hourly_entries items)"
  by (induction items) (simp_all add: length_hourly_rows)

lemma filter_city_replace:
  "filter (\<lambda>x. cur_city x = cur_city r) (insert_or_replace r t) = [r]"
  by (simp add: insert_or_replace_def filter_empty_conv)

lemma filter_city_unique:
  "distinct (map cur_city t) \<Longrightarrow> r \<in> set t \<Longrightarrow> filter (\<lambda>x. cur_city x = cur_city r) t = [r]"
proof (induction t)
  case Nil
  then show ?case by simp
next
  case (Cons a t)
  from Cons.prems have fresh: "\<forall>x\<in>set t. cur_city x \<noteq> cur_city a"
    by (metis distinct.simps(2) imageI list.simps(9) set_map)
  show ?case
  proof (cases "r = a")
    case True
    from fresh have "filter (\<lambda>x. cur_city x = cur_city a) t = []"
      by (simp add: filter_empty_conv)
    with True show ?thesis by simp
  next
    case False
    with Cons.prems have mem: "r \<in> set t" by simp
    with fresh have "cur_city a \<noteq> cur_city r" by metis
    moreover from Cons.prems have "distinct (map cur_city t)" by simp
    ultimately show ?thesis using Cons.IH mem by simp
  qed
qed


lemma non_null_single: "non_null [v] = (case v of None \<Rightarrow> [] | Some x \<Rightarrow> [x])"
  by (simp add: non_null_def map_filter_simps split: option.splits)

lemma sql_min_Min:
  "sql_min col = (if non_null col = [] then None else Some (Min (set (non_null col))))"
  by (auto simp: sql_min_def Min.set_eq_fold[symmetric] split: list.splits)

lemma sql_max_Max:
  "sql_max col = (if non_null col = [] then None else Some (Max (set (non_null col))))"
  by (auto simp: sql_max_def Max.set_eq_fold[symmetric] split: list.splits)

lemma flags_flag:
  "out_type ` set (flag ty v beyond) =
     (case v of None \<Rightarrow> {} | Some x \<Rightarrow> if x \<noteq> 0 \<and> beyond x then {ty} else {})"
  by (simp add: flag_def truthy_def split: option.splits)

lemma flag_Nil:
  "flag ty v beyond = [] \<longleftrightarrow> out_type ` set (flag ty v beyond) = {}"
  by simp

lemma flags_outliers_of:
  "out_type ` set (outliers_of r lo hi) =
     (case r of None \<Rightarrow> {} | Some x \<Rightarrow> if x > 40 then {Extreme_range} else {})
     \<union> (case lo of None \<Rightarrow> {} | Some x \<Rightarrow> if x < - 60 then {Extreme_cold} else {})
     \<union> (case hi of None \<Rightarrow> {} | Some x \<Rightarrow> if x > 60 then {Extreme_heat} else {})"
  by (auto simp: outliers_of_def flags_flag image_Un split: option.splits if_splits)

lemma range_exceeds:
  fixes A :: "rat set"
  assumes "finite A" "A \<noteq> {}"
  shows "Max A - Min A > d \<longleftrightarrow> (\<exists>x\<in>A. \<exists>y\<in>A. x - y > d)"
proof
  assume "Max A - Min A > d"
  moreover have "Max A \<in> A" "Min A \<in> A" using assms by simp_all
  ultimately show "\<exists>x\<in>A. \<exists>y\<in>A. x - y > d" by blast
next
  assume "\<exists>x\<in>A. \<exists>y\<in>A. x - y > d"
  then obtain x y where xy: "x \<in> A" "y \<in> A" "x - y > d" by blast
  with assms have "x \<le> Max A" "Min A \<le> y" by simp_all
  with xy show "Max A - Min A > d" by linarith
qed

lemma min_below:
  fixes A :: "rat set"
  assumes "finite A" "A \<noteq> {}"
  shows "Min A < d \<longleftrightarrow> (\<exists>x\<in>A. x < d)"
  using assms by (simp add: Min_less_iff)

lemma max_above:
  fixes A :: "rat set"
  assumes "finite A" "A \<noteq> {}"
  shows "Max A > d \<longleftrightarrow> (\<exists>x\<in>A. x > d)"
  using assms by (simp add: Max_gr_iff)

lemma flags_outlier_entry:
  "flags_of (outlier_entry s c) =
     (if \<exists>x\<in>set (stored_temps s c). \<exists>y\<in>set (stored_temps s c). x - y > 40
      then {Extreme_range} else {})
     \<union> (if \<exists>x\<in>set (stored_temps s c). x < - 60 then {Extreme_cold} else {})
     \<union> (if \<exists>x\<in>set (stored_temps s c). x > 60 then {Extreme_heat} else {})"
proof (cases "stored_temps s c = []")
  case True
  then show ?thesis
    by (simp add: flags_of_def outlier_entry_def Let_def flags_outliers_of sql_min_Min
        sql_max_Max sql_sub_def stored_temps_def)
next
  case False
  let ?A = "set (stored_temps s c)"
  have fin: "finite ?A" "?A \<noteq> {}" using False by simp_all
  have "flags_of (outlier_entry s c) =
     (if Max ?A - Min ?A > 40 then {Extreme_range} else {})
     \<union> (if Min ?A < - 60 then {Extreme_cold} else {})
     \<union> (if Max ?A > 60 then {Extreme_heat} else {})"
    using False
    by (simp add: flags_of_def outlier_entry_def Let_def flags_outliers_of sql_min_Min
        sql_max_Max sql_sub_def stored_temps_def)
  then show ?thesis
    by (simp only: range_exceeds[OF fin] min_below[OF fin] max_above[OF fin])
qed

lemma reachable_current_single:
  assumes "c \<in> set (group_keys (map cur_city (weather_current (run_collections runs))))"
  shows "\<exists>r. current_of (run_collections runs) c = [r]"
proof -
  from assms obtain r where r: "r \<in> set (weather_current (run_collections runs))" "cur_city r = c"
    by (auto simp: set_group_keys)
  from filter_city_unique[OF distinct_run_collections r(1)] r(2)
  have "current_of (run_collections runs) c = [r]" by (simp add: current_of_def)
  then show ?thesis ..
qed

lemma outlier_entry_single:
  assumes "current_of s c = [r]"
  shows "an_records (outlier_entry s c) = 1"
    and "an_range (outlier_entry s c) = (case cur_temperature r of None \<Rightarrow> None | Some t \<Rightarrow> Some 0)"
    and "Extreme_range \<notin> flags_of (outlier_entry s c)"
  using assms
  by (simp_all add: outlier_entry_def Let_def flags_of_def flags_outliers_of sql_min_Min
      sql_max_Max sql_sub_def non_null_single split: option.splits)

lemma quality_score_bounds: "0 \<le> quality_score scores n \<and> quality_score scores n \<le> 100"
  by (simp add: quality_score_def)

lemma quality_score_antimono:
  "n \<le> m \<Longrightarrow> quality_score scores m \<le> quality_score scores n"
proof -
  assume "n \<le> m"
  then have "(of_nat n :: rat) \<le> of_nat m" by simp
  then have "avg_completeness scores - of_nat m * 2 \<le> avg_completeness scores - of_nat n * 2"
    by simp
  then show ?thesis
    unfolding quality_score_def by (intro max.mono min.mono order_refl)
qed

lemma check_outliers_empty: "weather_current s = [] \<Longrightarrow> check_outliers s = []"
  by (simp add: check_outliers_def group_keys_def)

lemma completeness_query_empty: "weather_current s = [] \<Longrightarrow> completeness_query s = []"
  by (simp add: completeness_query_def group_keys_def)

lemma fetch_city_weather_eq:
  "fetch_city_weather net self c sent =
     (outcome net self (length sent, c), sent @ [request_for self c])"
  by (simp add: fetch_city_weather_def outcome_def request_for_def Let_def
      split: http_result.splits)

lemma gather_eq:
  "gather net self cities sent =
     (map (outcome net self) (enumerate (length sent) cities),
      sent @ map (request_for self) cities)"
  by (induction cities arbitrary: sent) (simp_all add: fetch_city_weather_eq)

lemma outcome_Some:
  "outcome net self kc = Some p \<Longrightarrow> succeeded net self kc \<and> item_city p = city_name (snd kc)"
  by (cases kc) (auto simp: outcome_def succeeded_def split: http_result.splits if_splits)

lemma outcome_None: "outcome net self kc = None \<Longrightarrow> \<not> succeeded net self kc"
  by (cases kc) (auto simp: outcome_def succeeded_def split: http_result.splits if_splits)

lemma outcome_city:
  "map item_city (List.map_filter (outcome net self) kcs)
     = map (\<lambda>(k, c). city_name c) (filter (succeeded net self) kcs)"
proof (induction kcs)
  case Nil
  show ?case by (simp add: map_filter_simps)
next
  case (Cons kc kcs)
  show ?case
  proof (cases "outcome net self kc")
    case None
    with Cons outcome_None[OF None] show ?thesis by (simp add: map_filter_simps)
  next
    case (Some p)
    with Cons outcome_Some[OF Some] show ?thesis
      by (simp add: map_filter_simps case_prod_beta)
  qed
qed

lemma map_filter_id_map: "List.map_filter (\<lambda>r. r) (map f xs) = List.map_filter f xs"
  by (induction xs) (simp_all add: map_filter_simps split: option.splits)

lemma mset_three:
  assumes "mset xs = {#a, b, c#}"
  shows "xs = [a, b, c] \<or> xs = [a, c, b] \<or> xs = [b, a, c]
         \<or> xs = [b, c, a] \<or> xs = [c, a, b] \<or> xs = [c, b, a]"
proof -
  from assms have "size (mset xs) = 3" by simp
  then have "length xs = 3" by simp
  then obtain x y z where xs: "xs = [x, y, z]"
    by (auto simp: numeral_3_eq_3 length_Suc_conv)
  from assms show ?thesis unfolding xs
    by (auto simp: add_eq_conv_ex)
qed

lemma precipitation_insights_medium:
  "i \<in> set (precipitation_insights row) \<Longrightarrow> ins_severity i = MEDIUM"
  by (cases row) (auto simp: precipitation_insights_def split: option.splits if_splits)

lemma no_high_precipitation:
  "filter (\<lambda>i. ins_severity i = HIGH) (concat (map precipitation_insights rows)) = []"
  by (auto simp: filter_empty_conv dest: precipitation_insights_medium)


lemma scenario_orders:
  assumes "mset (weather_daily s) =
             {#scenario_row c d1 30 20 p1 t1, scenario_row c d2 28 19 p2 t2,
               scenario_row c d3 32 21 p3 t3#}"
  shows "weather_daily s = [scenario_row c d1 30 20 p1 t1, scenario_row c d2 28 19 p2 t2,
                            scenario_row c d3 32 21 p3 t3]
       \<or> weather_daily s = [scenario_row c d1 30 20 p1 t1, scenario_row c d3 32 21 p3 t3,
                            scenario_row c d2 28 19 p2 t2]
       \<or> weather_daily s = [scenario_row c d2 28 19 p2 t2, scenario_row c d1 30 20 p1 t1,
                            scenario_row c d3 32 21 p3 t3]
       \<or> weather_daily s = [scenario_row c d2 28 19 p2 t2, scenario_row c d3 32 21 p3 t3,
                            scenario_row c d1 30 20 p1 t1]
       \<or> weather_daily s = [scenario_row c d3 32 21 p3 t3, scenario_row c d1 30 20 p1 t1,
                            scenario_row c d2 28 19 p2 t2]
       \<or> weather_daily s = [scenario_row c d3 32 21 p3 t3, scenario_row c d2 28 19 p2 t2,
                            scenario_row c d1 30 20 p1 t1]"
  using assms by (rule mset_three)

lemma scenario_daily_ordered:
  assumes "d1 < d2" "d2 < d3"
    and "mset (weather_daily s) =
             {#scenario_row c d1 30 20 p1 t1, scenario_row c d2 28 19 p2 t2,
               scenario_row c d3 32 21 p3 t3#}"
  shows "daily_ordered s =
           [scenario_row c d1 30 20 p1 t1, scenario_row c d2 28 19 p2 t2,
            scenario_row c d3 32 21 p3 t3]"
proof -
  from assms(1,2) have ord:
    "d1 \<le> d2" "d2 \<le> d3" "d1 \<le> d3" "\<not> d2 \<le> d1" "\<not> d3 \<le> d2" "\<not> d3 \<le> d1"
    by auto
  from scenario_orders[OF assms(3)] show ?thesis
    by (elim disjE) (simp_all add: daily_ordered_def scenario_row_def ord)
qed

lemma scenario_temperature_stats:
  assumes "mset (weather_daily s) =
             {#scenario_row c d1 30 20 p1 t1, scenario_row c d2 28 19 p2 t2,
               scenario_row c d3 32 21 p3 t3#}"
  shows "temperature_stats s = [(c, Some 30, Some 19)]"
    and "cities_data s = [(c, Some 30)]"
  using scenario_orders[OF assms]
  by (elim disjE;
      simp add: temperature_stats_def cities_data_def daily_of_def group_keys_def
        scenario_row_def sql_avg_def sql_min_def non_null_def map_filter_simps)+

text \<open>One collection run that received the three days for one city stores exactly the
  three rows of the scenario.\<close>

lemma scenario_item_stored:
  "weather_daily (run_collections [[scenario_item]]) =
     [scenario_row ''Sochi'' ''2024-07-01'' 30 20 None ''2024-07-01T06:00:00'',
      scenario_row ''Sochi'' ''2024-07-02'' 28 19 None ''2024-07-01T06:00:00'',
      scenario_row ''Sochi'' ''2024-07-03'' 32 21 None ''2024-07-01T06:00:00'']"
  by code_simp

section \<open>The tables under repeated collection runs\<close>

text \<open>
  C2 (as amended). After every sequence of collection runs, and so also between the
  payloads of a run, \<open>weather_current\<close> holds at most one row per city, and saving a
  payload with a current observation leaves exactly its row for that city. A run appends
  to \<open>weather_daily\<close> and \<open>weather_hourly\<close> one row per entry of the \<open>time\<close> arrays of
  its payloads and removes or merges nothing, so the row counts grow by exactly the number
  of delivered entries: strictly when the run delivered at least one, not at all when it
  delivered none.
\<close>

theorem current_unique_forecasts_appended:
  "distinct (map cur_city (weather_current (run_collections runs)))
   \<and> (data_current (item_data item) = Some cur \<longrightarrow>
        current_of (save_item item s) (item_city item) =
          [\<lparr>cur_city = item_city item, cur_temperature = temperature_2m cur,
            cur_humidity = relative_humidity_2m cur, cur_wind_speed = wind_speed_10m cur,
            cur_collected_at = item_collected_at item\<rparr>])
   \<and> weather_daily (run_collections (runs @ [items]))
       = weather_daily (run_collections runs) @ concat (map daily_rows items)
   \<and> weather_hourly (run_collections (runs @ [items]))
       = weather_hourly (run_collections runs) @ concat (map hourly_rows items)
   \<and> length (weather_daily (run_collections (runs @ [items])))
       = length (weather_daily (run_collections runs)) + sum_list (map daily_entries items)
   \<and> length (weather_hourly (run_collections (runs @ [items])))
       = length (weather_hourly (run_collections runs)) + sum_list (map hourly_entries items)"
proof (intro conjI impI)
  show "distinct (map cur_city (weather_current (run_collections runs)))"
    by (rule distinct_run_collections)
next
  assume cur: "data_current (item_data item) = Some cur"
  let ?r = "\<lparr>cur_city = item_city item, cur_temperature = temperature_2m cur,
            cur_humidity = relative_humidity_2m cur, cur_wind_speed = wind_speed_10m cur,
            cur_collected_at = item_collected_at item\<rparr>"
  have "weather_current (save_item item s) = insert_or_replace ?r (weather_current s)"
    using cur by (simp add: save_item_def save_current_def)
  moreover have "cur_city ?r = item_city item" by simp
  ultimately show "current_of (save_item item s) (item_city item) = [?r]"
    using filter_city_replace[of ?r "weather_current s"] by (simp add: current_of_def)
next
  show "weather_daily (run_collections (runs @ [items]))
       = weather_daily (run_collections runs) @ concat (map daily_rows items)"
    by (simp only: run_collections_snoc daily_save_to_db)
next
  show "weather_hourly (run_collections (runs @ [items]))
       = weather_hourly (run_collections runs) @ concat (map hourly_rows items)"
    by (simp only: run_collections_snoc hourly_save_to_db)
next
  show "length (weather_daily (run_collections (runs @ [items])))
       = length (weather_daily (run_collections runs)) + sum_list (map daily_entries items)"
    by (simp only: run_collections_snoc daily_save_to_db length_append length_concat_daily)
next
  show "length (weather_hourly (run_collections (runs @ [items])))
       = length (weather_hourly (run_collections runs)) + sum_list (map hourly_entries items)"
    by (simp only: run_collections_snoc hourly_save_to_db length_append length_concat_hourly)
qed


text \<open>The theorem at a city observed twice and a forecast collected twice.\<close>

theorem current_unique_forecasts_appended_witness:
  "data_current (item_data (current_item ''Omsk'' (Some 2) None))
     = Some \<lparr>temperature_2m = Some 2, relative_humidity_2m = None, wind_speed_10m = Some 3\<rparr>
   \<and> current_of (save_item (current_item ''Omsk'' (Some 2) None)
                   (run_collections [[current_item ''Omsk'' (Some (- 7)) (Some 60)]])) ''Omsk''
     = [\<lparr>cur_city = ''Omsk'', cur_temperature = Some 2, cur_humidity = None,
         cur_wind_speed = Some 3, cur_collected_at = ''2024-01-10T06:00:00''\<rparr>]
   \<and> length (weather_daily (run_collections ([[scenario_item]] @ [[scenario_item]]))) = 6"
  using current_unique_forecasts_appended
    [of "[[scenario_item]]" "current_item ''Omsk'' (Some 2) None"
        "\<lparr>temperature_2m = Some 2, relative_humidity_2m = None, wind_speed_10m = Some 3\<rparr>"
        "run_collections [[current_item ''Omsk'' (Some (- 7)) (Some 60)]]" "[scenario_item]"]
  by (simp add: current_item_def) code_simp


text \<open>A second run in which every request failed stores nothing: the count of daily
  rows does not grow.\<close>

theorem failed_run_adds_no_rows:
  "\<not> length (weather_daily (run_collections [[scenario_item]]))
       < length (weather_daily (run_collections [[scenario_item], []]))"
  by code_simp

section \<open>Completeness\<close>

text \<open>
  C4. For every store, \<open>check_completeness\<close> returns without an error; it lists exactly
  the cities of \<open>weather_current\<close>, each with T > 0 total rows and F rows with a
  temperature, and reports \<open>round(100 * F / T, 1)\<close>, so no division by zero occurs; the
  logged status of a city is OK exactly when its percentage is at least 95. Rounding to
  one decimal moves a value by at most 0.05 and yields a multiple of 0.1.
\<close>

theorem completeness_rounded_ratio:
  "\<exists>res logged.
     check_completeness s = Inr (res, logged)
     \<and> map fst res = group_keys (map cur_city (weather_current s))
     \<and> set (map fst res) = cur_city ` set (weather_current s)
     \<and> (\<forall>(c, e) \<in> set res.
          total_records e = length (current_of s c) \<and> 0 < total_records e
          \<and> temperature_filled e = length (stored_temps s c)
          \<and> completeness_percent e
              = round1 (100 * of_nat (temperature_filled e) / of_nat (total_records e)))
     \<and> logged = map (\<lambda>(c, e). (if completeness_percent e \<ge> 95 then OK else ATTENTION,
                                c, completeness_percent e)) res
     \<and> \<bar>round1 x - x\<bar> \<le> 1 / 20 \<and> round1 x * 10 \<in> \<int>"
  apply (intro exI conjI)
        apply (rule check_completeness_eq)
       apply (simp add: completeness_query_def comp_def)
      apply (simp add: completeness_query_def comp_def set_group_keys image_image)
     apply (auto simp: completeness_query_def sql_round1_def sql_div_def stored_temps_def
      sql_count_def mult.commute dest: current_of_nonempty)[1]
    apply (simp add: comp_def case_prod_beta)
   apply (rule round1_close)
  apply (rule round1_tenths)
  done


text \<open>The theorem on a store with one city without a temperature and one with.\<close>

theorem completeness_rounded_ratio_witness:
  "check_completeness
     (run_collections [[current_item ''Omsk'' None (Some 60), current_item ''Sochi'' (Some 3) None]])
   = Inr ([(''Omsk'', \<lparr>total_records = 1, temperature_filled = 0, humidity_filled = 1,
                        wind_filled = 1, completeness_percent = 0\<rparr>),
           (''Sochi'', \<lparr>total_records = 1, temperature_filled = 1, humidity_filled = 0,
                         wind_filled = 1, completeness_percent = 100\<rparr>)],
          [(ATTENTION, ''Omsk'', 0), (OK, ''Sochi'', 100)])"
proof -
  have "check_completeness
     (run_collections [[current_item ''Omsk'' None (Some 60), current_item ''Sochi'' (Some 3) None]])
   = Inr ([(''Omsk'', \<lparr>total_records = 1, temperature_filled = 0, humidity_filled = 1,
                        wind_filled = 1, completeness_percent = 0\<rparr>),
           (''Sochi'', \<lparr>total_records = 1, temperature_filled = 1, humidity_filled = 0,
                         wind_filled = 1, completeness_percent = 100\<rparr>)],
          [(ATTENTION, ''Omsk'', 0), (OK, ''Sochi'', 100)])"
    by code_simp
  with completeness_rounded_ratio
    [of "run_collections [[current_item ''Omsk'' None (Some 60), current_item ''Sochi'' (Some 3) None]]" 0]
  show ?thesis by simp
qed

section \<open>Outliers\<close>

text \<open>
  C6. For every store, \<open>check_outliers\<close> lists the cities of \<open>weather_current\<close>, and
  for each of them the three flags are decided independently from the temperatures
  stored for the city: "extreme_cold" exactly when the minimum is below -60 (some stored
  temperature is), "extreme_heat" exactly when the maximum is above 60, "extreme_range"
  exactly when maximum minus minimum exceeds 40 (two stored temperatures differ by more than
  40). A city whose temperatures stay within [-60,60] with range at most 40 carries no flag.
\<close>

theorem outlier_flags_by_thresholds:
  "map fst (check_outliers s) = group_keys (map cur_city (weather_current s))
   \<and> (\<forall>(c, a) \<in> set (check_outliers s).
        (Extreme_cold \<in> flags_of a \<longleftrightarrow> (\<exists>x\<in>set (stored_temps s c). x < - 60))
      \<and> (Extreme_heat \<in> flags_of a \<longleftrightarrow> (\<exists>x\<in>set (stored_temps s c). x > 60))
      \<and> (Extreme_range \<in> flags_of a \<longleftrightarrow>
            (\<exists>x\<in>set (stored_temps s c). \<exists>y\<in>set (stored_temps s c). x - y > 40))
      \<and> ((\<forall>x\<in>set (stored_temps s c). - 60 \<le> x \<and> x \<le> 60)
           \<and> (\<forall>x\<in>set (stored_temps s c). \<forall>y\<in>set (stored_temps s c). x - y \<le> 40)
           \<longrightarrow> an_anomalies a = [] \<and> \<not> an_has_issues a))"
proof (intro conjI ballI)
  show "map fst (check_outliers s) = group_keys (map cur_city (weather_current s))"
    by (simp add: check_outliers_def comp_def)
next
  fix p assume "p \<in> set (check_outliers s)"
  then obtain c where p: "p = (c, outlier_entry s c)"
    by (auto simp: check_outliers_def)
  have nil: "an_anomalies (outlier_entry s c) = [] \<longleftrightarrow> flags_of (outlier_entry s c) = {}"
    by (simp add: flags_of_def)
  have iss: "an_has_issues (outlier_entry s c) \<longleftrightarrow> an_anomalies (outlier_entry s c) \<noteq> []"
    by (simp add: outlier_entry_def Let_def)
  show "case p of (c, a) \<Rightarrow>
        (Extreme_cold \<in> flags_of a \<longleftrightarrow> (\<exists>x\<in>set (stored_temps s c). x < - 60))
      \<and> (Extreme_heat \<in> flags_of a \<longleftrightarrow> (\<exists>x\<in>set (stored_temps s c). x > 60))
      \<and> (Extreme_range \<in> flags_of a \<longleftrightarrow>
            (\<exists>x\<in>set (stored_temps s c). \<exists>y\<in>set (stored_temps s c). x - y > 40))
      \<and> ((\<forall>x\<in>set (stored_temps s c). - 60 \<le> x \<and> x \<le> 60)
           \<and> (\<forall>x\<in>set (stored_temps s c). \<forall>y\<in>set (stored_temps s c). x - y \<le> 40)
           \<longrightarrow> an_anomalies a = [] \<and> \<not> an_has_issues a)"
    unfolding p prod.case iss nil flags_outlier_entry
    by (auto simp flip: not_less)
qed



text \<open>The theorem on a store with a city at -70 degrees and a city at 20 degrees.\<close>

theorem outlier_flags_by_thresholds_witness:
  "(''Omsk'', outlier_entry cold_and_mild ''Omsk'') \<in> set (check_outliers cold_and_mild)
   \<and> stored_temps cold_and_mild ''Omsk'' = [- 70]
   \<and> Extreme_cold \<in> flags_of (outlier_entry cold_and_mild ''Omsk'')
   \<and> Extreme_heat \<notin> flags_of (outlier_entry cold_and_mild ''Omsk'')
   \<and> (''Sochi'', outlier_entry cold_and_mild ''Sochi'') \<in> set (check_outliers cold_and_mild)
   \<and> stored_temps cold_and_mild ''Sochi'' = [20]
   \<and> an_anomalies (outlier_entry cold_and_mild ''Sochi'') = []"
proof -
  have m1: "(''Omsk'', outlier_entry cold_and_mild ''Omsk'') \<in> set (check_outliers cold_and_mild)"
    by code_simp
  have m2: "(''Sochi'', outlier_entry cold_and_mild ''Sochi'') \<in> set (check_outliers cold_and_mild)"
    by code_simp
  have t1: "stored_temps cold_and_mild ''Omsk'' = [- 70]" by code_simp
  have t2: "stored_temps cold_and_mild ''Sochi'' = [20]" by code_simp
  note all = outlier_flags_by_thresholds[of cold_and_mild, THEN conjunct2]
  from bspec[OF all m1] have f1:
    "Extreme_cold \<in> flags_of (outlier_entry cold_and_mild ''Omsk'')"
    "Extreme_heat \<notin> flags_of (outlier_entry cold_and_mild ''Omsk'')"
    by (simp_all add: t1)
  from bspec[OF all m2] have f2: "an_anomalies (outlier_entry cold_and_mild ''Sochi'') = []"
    by (simp add: t2)
  from m1 m2 t1 t2 f1 f2 show ?thesis by simp
qed


section \<open>The quality checks on the stores the collector can build\<close>

text \<open>
  C10 (as amended). In every store reachable through the collector, each city listed by the
  outlier check has exactly one row; its range MAX - MIN is 0 when that row holds a
  temperature and null when the temperature is null; no city carries "extreme_range"; and
  the completeness check returns, for every city, one row in total and a percentage of
  exactly 100 when the temperature is present and 0 when it is null.
\<close>

theorem reachable_range_zero_or_null:
  "(\<forall>(c, a) \<in> set (check_outliers (run_collections runs)).
      an_records a = 1
      \<and> (\<exists>r. current_of (run_collections runs) c = [r]
             \<and> an_range a = (case cur_temperature r of None \<Rightarrow> None | Some t \<Rightarrow> Some 0))
      \<and> Extreme_range \<notin> flags_of a)
   \<and> (\<exists>res logged.
        check_completeness (run_collections runs) = Inr (res, logged)
        \<and> (\<forall>(c, e) \<in> set res.
             total_records e = 1
             \<and> completeness_percent e = (if temperature_filled e = 0 then 0 else 100)))"
proof (intro conjI ballI)
  fix p assume "p \<in> set (check_outliers (run_collections runs))"
  then obtain c where p: "p = (c, outlier_entry (run_collections runs) c)"
    and c: "c \<in> set (group_keys (map cur_city (weather_current (run_collections runs))))"
    by (auto simp: check_outliers_def)
  from reachable_current_single[OF c] obtain r
    where r: "current_of (run_collections runs) c = [r]" ..
  show "case p of (c, a) \<Rightarrow>
      an_records a = 1
      \<and> (\<exists>r. current_of (run_collections runs) c = [r]
             \<and> an_range a = (case cur_temperature r of None \<Rightarrow> None | Some t \<Rightarrow> Some 0))
      \<and> Extreme_range \<notin> flags_of a"
    unfolding p prod.case
    using outlier_entry_single[OF r] r by blast
next
  let ?s = "run_collections runs"
  have "\<forall>row\<in>set (completeness_query ?s).
          cmp_total row = 1
          \<and> the (cmp_completeness row) = (if cmp_temp_filled row = 0 then 0 else 100)"
  proof
    fix row assume "row \<in> set (completeness_query ?s)"
    then obtain c where c: "c \<in> set (group_keys (map cur_city (weather_current ?s)))"
      and row: "row = \<lparr>cmp_city = c,
             cmp_total = length (current_of ?s c),
             cmp_temp_filled = sql_count (map cur_temperature (current_of ?s c)),
             cmp_humid_filled = sql_count (map cur_humidity (current_of ?s c)),
             cmp_wind_filled = sql_count (map cur_wind_speed (current_of ?s c)),
             cmp_completeness =
               sql_round1
                 (sql_div (of_nat (sql_count (map cur_temperature (current_of ?s c))) * 100)
                          (of_nat (length (current_of ?s c))))\<rparr>"
      by (auto simp: completeness_query_def)
    from reachable_current_single[OF c] obtain r where r: "current_of ?s c = [r]" ..
    show "cmp_total row = 1
          \<and> the (cmp_completeness row) = (if cmp_temp_filled row = 0 then 0 else 100)"
      unfolding row
      by (simp add: r sql_count_def non_null_single sql_round1_def sql_div_def round1_0 round1_100
          split: option.splits)
  qed
  then show "\<exists>res logged.
        check_completeness ?s = Inr (res, logged)
        \<and> (\<forall>(c, e) \<in> set res.
             total_records e = 1
             \<and> completeness_percent e = (if temperature_filled e = 0 then 0 else 100))"
    by (auto simp: check_completeness_eq)
qed


text \<open>The theorem at the city stored with -70 degrees.\<close>

theorem reachable_range_zero_or_null_witness:
  "(''Omsk'', outlier_entry cold_and_mild ''Omsk'') \<in> set (check_outliers cold_and_mild)
   \<and> an_records (outlier_entry cold_and_mild ''Omsk'') = 1
   \<and> an_range (outlier_entry cold_and_mild ''Omsk'') = Some 0
   \<and> Extreme_range \<notin> flags_of (outlier_entry cold_and_mild ''Omsk'')"
proof -
  have m1: "(''Omsk'', outlier_entry cold_and_mild ''Omsk'') \<in> set (check_outliers cold_and_mild)"
    by code_simp
  have rg: "an_range (outlier_entry cold_and_mild ''Omsk'') = Some 0" by code_simp
  note all = reachable_range_zero_or_null
     [of "[[current_item ''Omsk'' (Some (- 70)) (Some 60),
            current_item ''Sochi'' (Some 20) (Some 60)]]", folded cold_and_mild_def, THEN conjunct1]
  from bspec[OF all m1] m1 rg show ?thesis by simp
qed


text \<open>A collected observation without a temperature: the city's range is null, not 0.\<close>

theorem null_temperature_range_is_null:
  "map (\<lambda>(c, a). (c, an_range a))
     (check_outliers (run_collections [[current_item ''Omsk'' None (Some 60)]]))
   = [(''Omsk'', None)]"
  by code_simp

section \<open>The aggregate quality score\<close>

text \<open>
  C3. For every store the quality report is produced without an error; its score is the
  mean of the cities' completeness percentages (0 when there is no city) minus 2 times the
  total number of outliers over all cities, clamped into [0,100]. With the completeness
  values held fixed the score does not increase when the outlier count grows, and with no
  city at all the score is exactly 0.
\<close>

theorem quality_score_clamped_difference:
  "(\<exists>rep logged.
      generate_quality_report pick today s = Inr rep
      \<and> check_completeness s = Inr (rep_completeness rep, logged)
      \<and> rep_anomalies rep = check_outliers s
      \<and> rep_cities_analyzed rep = length (rep_completeness rep)
      \<and> rep_avg_completeness rep =
          (if rep_completeness rep = [] then 0
           else sum_list (map (\<lambda>(c, e). completeness_percent e) (rep_completeness rep))
                / of_nat (length (rep_completeness rep)))
      \<and> rep_total_anomalies rep
          = sum_list (map (\<lambda>(c, a). length (an_anomalies a)) (rep_anomalies rep))
      \<and> rep_quality_score rep
          = max 0 (min 100 (rep_avg_completeness rep - 2 * of_nat (rep_total_anomalies rep)))
      \<and> rep_quality_score rep
          = quality_score (map (\<lambda>(c, e). completeness_percent e) (rep_completeness rep))
              (rep_total_anomalies rep)
      \<and> 0 \<le> rep_quality_score rep \<and> rep_quality_score rep \<le> 100
      \<and> (weather_current s = [] \<longrightarrow> rep_completeness rep = [] \<and> rep_quality_score rep = 0))
   \<and> (n \<le> m \<longrightarrow> quality_score scores m \<le> quality_score scores n)
   \<and> 0 \<le> quality_score scores n \<and> quality_score scores n \<le> 100"
proof (intro conjI impI)
  obtain res logged where cc: "check_completeness s = Inr (res, logged)"
    and res: "res = map (\<lambda>row. (cmp_city row,
                       \<lparr>total_records = cmp_total row,
                        temperature_filled = cmp_temp_filled row,
                        humidity_filled = cmp_humid_filled row,
                        wind_filled = cmp_wind_filled row,
                        completeness_percent = the (cmp_completeness row)\<rparr>))
              (completeness_query s)"
    using check_completeness_eq[of s] by blast
  let ?scores = "map (\<lambda>(c, e). completeness_percent e) res"
  let ?rep = "\<lparr>rep_date = today,
                   rep_completeness = res,
                   rep_anomalies = check_outliers s,
                   rep_validity = check_validity pick s,
                   rep_quality_score =
                     quality_score ?scores (anomaly_count (check_outliers s)),
                   rep_avg_completeness = avg_completeness ?scores,
                   rep_total_anomalies = anomaly_count (check_outliers s),
                   rep_cities_analyzed = length res\<rparr>"
  have rep: "generate_quality_report pick today s = Inr ?rep"
    by (simp add: generate_quality_report_def cc Let_def)
  have empty: "weather_current s = [] \<longrightarrow> res = [] \<and> rep_quality_score ?rep = 0"
    by (simp add: res completeness_query_empty check_outliers_empty anomaly_count_def
        quality_score_def avg_completeness_def)
  show "\<exists>rep logged.
      generate_quality_report pick today s = Inr rep
      \<and> check_completeness s = Inr (rep_completeness rep, logged)
      \<and> rep_anomalies rep = check_outliers s
      \<and> rep_cities_analyzed rep = length (rep_completeness rep)
      \<and> rep_avg_completeness rep =
          (if rep_completeness rep = [] then 0
           else sum_list (map (\<lambda>(c, e). completeness_percent e) (rep_completeness rep))
                / of_nat (length (rep_completeness rep)))
      \<and> rep_total_anomalies rep
          = sum_list (map (\<lambda>(c, a). length (an_anomalies a)) (rep_anomalies rep))
      \<and> rep_quality_score rep
          = max 0 (min 100 (rep_avg_completeness rep - 2 * of_nat (rep_total_anomalies rep)))
      \<and> rep_quality_score rep
          = quality_score (map (\<lambda>(c, e). completeness_percent e) (rep_completeness rep))
              (rep_total_anomalies rep)
      \<and> 0 \<le> rep_quality_score rep \<and> rep_quality_score rep \<le> 100
      \<and> (weather_current s = [] \<longrightarrow> rep_completeness rep = [] \<and> rep_quality_score rep = 0)"
    apply (rule exI[of _ ?rep], rule exI[of _ logged])
    apply (intro conjI)
              apply (rule rep)
             apply (simp add: cc)
            apply simp
           apply simp
          apply (simp add: avg_completeness_def)
         apply (simp add: anomaly_count_def)
        apply (simp add: quality_score_def mult.commute)
       apply simp
      apply (simp add: quality_score_bounds)
     apply (simp add: quality_score_bounds)
    using empty apply auto
    done
next
  assume "n \<le> m"
  then show "quality_score scores m \<le> quality_score scores n" by (rule quality_score_antimono)
next
  show "0 \<le> quality_score scores n" by (simp add: quality_score_bounds)
next
  show "quality_score scores n \<le> 100" by (simp add: quality_score_bounds)
qed



text \<open>The theorem at outlier counts 1 and 3, on the empty store and on a store with one
  flagged city.\<close>

theorem quality_score_clamped_difference_witness:
  "(1::nat) \<le> 3
   \<and> quality_score [100, 100] 3 = 94 \<and> quality_score [100, 100] 1 = 98
   \<and> weather_current empty_store = []
   \<and> map_sum (\<lambda>e. e) rep_quality_score
        (generate_quality_report last ''2024-01-10'' empty_store) = Inr 0
   \<and> map_sum (\<lambda>e. e) rep_quality_score
        (generate_quality_report last ''2024-01-10'' cold_and_mild) = Inr 98"
proof -
  have a: "quality_score [100, 100] 3 = 94 \<and> quality_score [100, 100] 1 = 98"
    by code_simp
  have b: "weather_current empty_store = []" by (simp add: empty_store_def)
  have c: "map_sum (\<lambda>e. e) rep_quality_score
        (generate_quality_report last ''2024-01-10'' empty_store) = Inr 0"
    by code_simp
  have d: "map_sum (\<lambda>e. e) rep_quality_score
        (generate_quality_report last ''2024-01-10'' cold_and_mild) = Inr 98"
    by code_simp
  from quality_score_clamped_difference[of last "''2024-01-10''" empty_store 1 3 "[100, 100]"]
    a b c d
  show ?thesis by simp
qed


section \<open>The batch of requests\<close>

text \<open>
  C8. For every batch of cities, \<open>collect_batch\<close> sends exactly one request per city, in
  order, whatever the earlier requests did (no abort, no retry); it returns exactly the
  payloads of the cities whose request was answered with status 200, in the order of the
  cities, a city whose request raised or was answered with another status being left out;
  and it stores exactly the returned payloads.
\<close>

theorem collect_batch_keeps_successes:
  "collect_batch net self cities (sent, s) =
     (List.map_filter (outcome net self) (enumerate (length sent) cities),
      sent @ map (request_for self) cities,
      save_to_db (List.map_filter (outcome net self) (enumerate (length sent) cities)) s)
   \<and> map item_city (List.map_filter (outcome net self) (enumerate (length sent) cities))
       = map (\<lambda>(k, c). city_name c)
           (filter (succeeded net self) (enumerate (length sent) cities))
   \<and> length (List.map_filter (outcome net self) (enumerate (length sent) cities))
       \<le> length cities"
proof (intro conjI)
  show "collect_batch net self cities (sent, s) =
     (List.map_filter (outcome net self) (enumerate (length sent) cities),
      sent @ map (request_for self) cities,
      save_to_db (List.map_filter (outcome net self) (enumerate (length sent) cities)) s)"
    by (simp add: collect_batch_def gather_eq map_filter_id_map Let_def)
next
  show "map item_city (List.map_filter (outcome net self) (enumerate (length sent) cities))
       = map (\<lambda>(k, c). city_name c)
           (filter (succeeded net self) (enumerate (length sent) cities))"
    by (rule outcome_city)
next
  have "length (List.map_filter (outcome net self) (enumerate (length sent) cities))
          \<le> length (enumerate (length sent) cities)"
    unfolding List.map_filter_def length_map by (rule length_filter_le)
  then show "length (List.map_filter (outcome net self) (enumerate (length sent) cities))
       \<le> length cities" by simp
qed


text \<open>The theorem on three cities of which the first request raises and the second is
  answered with status 500.\<close>

theorem collect_batch_keeps_successes_witness:
  "DataCollector_init \<lparr>arg_forecast_days = None, arg_db_path = None\<rparr> = Inr default_collector
   \<and> fst (collect_batch flaky_net default_collector three_cities ([], empty_store))
       = [scenario_item]
   \<and> fst (snd (collect_batch flaky_net default_collector three_cities ([], empty_store)))
       = map (request_for default_collector) three_cities
   \<and> snd (snd (collect_batch flaky_net default_collector three_cities ([], empty_store)))
       = run_collections [[scenario_item]]"
proof -
  have a: "DataCollector_init \<lparr>arg_forecast_days = None, arg_db_path = None\<rparr>
             = Inr default_collector"
    by (simp add: DataCollector_init_def default_collector_def)
  have b: "List.map_filter (outcome flaky_net default_collector) (enumerate 0 three_cities)
             = [scenario_item]"
    by code_simp
  have c: "save_to_db [scenario_item] empty_store = run_collections [[scenario_item]]"
    by (simp add: run_collections_def init_db_def)
  from collect_batch_keeps_successes[of flaky_net default_collector three_cities "[]" empty_store]
    a b c
  show ?thesis by simp
qed


section \<open>The store path of the components\<close>

text \<open>
  C9 (as amended). The constructors of the Analyzer, the Quality Checker, the Visualizer and
  the chart generator accept the store path as an explicit value that overrides the fixed
  default location, which they use when no path is given. The Collector's constructor takes
  only the forecast horizon: a call that passes a path fails, and every Collector uses the
  fixed default location.
\<close>

theorem reader_constructors_take_db_path:
  "DataAnalyzer_init \<lparr>arg_forecast_days = None, arg_db_path = Some p\<rparr> = Inr p
   \<and> DataQuality_init \<lparr>arg_forecast_days = None, arg_db_path = Some p\<rparr> = Inr p
   \<and> DataVisualizer_init \<lparr>arg_forecast_days = None, arg_db_path = Some p\<rparr> = Inr p
   \<and> TemperatureChartGenerator_init \<lparr>arg_forecast_days = None, arg_db_path = Some p\<rparr> = Inr p
   \<and> DataAnalyzer_init \<lparr>arg_forecast_days = None, arg_db_path = None\<rparr> = Inr default_db_path
   \<and> DataQuality_init \<lparr>arg_forecast_days = None, arg_db_path = None\<rparr> = Inr default_db_path
   \<and> DataVisualizer_init \<lparr>arg_forecast_days = None, arg_db_path = None\<rparr> = Inr default_db_path
   \<and> TemperatureChartGenerator_init \<lparr>arg_forecast_days = None, arg_db_path = None\<rparr>
       = Inr default_db_path
   \<and> DataCollector_init \<lparr>arg_forecast_days = d, arg_db_path = Some p\<rparr> = Inl TypeError
   \<and> map_sum (\<lambda>e. e) collector_db_path
        (DataCollector_init \<lparr>arg_forecast_days = d, arg_db_path = None\<rparr>) = Inr default_db_path"
  by (simp add: DataAnalyzer_init_def DataQuality_init_def DataVisualizer_init_def
      TemperatureChartGenerator_init_def reader_init_def DataCollector_init_def
      default_db_path_def)


text \<open>Constructing a Collector with a store path raises; without one, the Collector's
  path is the fixed default.\<close>

theorem collector_rejects_db_path:
  "DataCollector_init \<lparr>arg_forecast_days = Some 10, arg_db_path = Some ''data/other.db''\<rparr>
     = Inl TypeError
   \<and> map_sum (\<lambda>e. e) collector_db_path
        (DataCollector_init \<lparr>arg_forecast_days = Some 10, arg_db_path = None\<rparr>)
     = Inr ''data/weather_data.db''"
  by (simp add: DataCollector_init_def)

section \<open>The scenario of one city with three days of forecast\<close>

text \<open>
  C7. For every store whose daily table holds, in whatever order they were stored, exactly
  three rows of one city, for three distinct dates in ascending order with maxima 30, 28,
  32 and minima 20, 19, 21 (any precipitation, any collection time, any content of the
  other tables): the average maximum of the city is 30, so the insights operation emits
  the HIGH-severity heat insight for that city, first in the list and the only HIGH one,
  followed only by what the precipitation rule adds; and the trends operation returns for
  that city three entries in date order with averages 25, 23.5 and 26.5.
\<close>

theorem scenario_heat_insight_and_trends:
  assumes "d1 < d2" and "d2 < d3"
    and "mset (weather_daily s) =
           {#scenario_row c d1 30 20 p1 t1, scenario_row c d2 28 19 p2 t2,
             scenario_row c d3 32 21 p3 t3#}"
  shows "temperature_stats s = [(c, Some 30, Some 19)]
   \<and> generate_insights s
       = heat_insight c 30 # concat (map precipitation_insights (precipitation_stats s))
   \<and> filter (\<lambda>i. ins_severity i = HIGH) (generate_insights s) = [heat_insight c 30]
   \<and> analyze_temperature_trends s =
       [(c, [\<lparr>trend_date = d1, trend_max = Some 30, trend_min = Some 20, trend_avg = Some 25\<rparr>,
             \<lparr>trend_date = d2, trend_max = Some 28, trend_min = Some 19,
               trend_avg = Some (47 / 2)\<rparr>,
             \<lparr>trend_date = d3, trend_max = Some 32, trend_min = Some 21,
               trend_avg = Some (53 / 2)\<rparr>])]"
proof (intro conjI)
  show stats: "temperature_stats s = [(c, Some 30, Some 19)]"
    by (rule scenario_temperature_stats(1)[OF assms(3)])
  have cmp: "comparison_insights (cities_data s) = []"
    by (simp add: scenario_temperature_stats(2)[OF assms(3)] comparison_insights_def
        non_null_def map_filter_simps truthy_def)
  have temp: "concat (map temperature_insights (temperature_stats s)) = [heat_insight c 30]"
    by (simp add: stats temperature_insights_def truthy_def heat_insight_def)
  show gen: "generate_insights s
       = heat_insight c 30 # concat (map precipitation_insights (precipitation_stats s))"
    by (simp add: generate_insights_def temp cmp)
  show "filter (\<lambda>i. ins_severity i = HIGH) (generate_insights s) = [heat_insight c 30]"
    unfolding gen by (simp add: no_high_precipitation) (simp add: heat_insight_def)
  show "analyze_temperature_trends s =
       [(c, [\<lparr>trend_date = d1, trend_max = Some 30, trend_min = Some 20, trend_avg = Some 25\<rparr>,
             \<lparr>trend_date = d2, trend_max = Some 28, trend_min = Some 19,
               trend_avg = Some (47 / 2)\<rparr>,
             \<lparr>trend_date = d3, trend_max = Some 32, trend_min = Some 21,
               trend_avg = Some (53 / 2)\<rparr>])]"
    by (simp add: analyze_temperature_trends_def
        scenario_daily_ordered[OF assms(1) assms(2) assms(3)]
        scenario_row_def trend_of_row_def avg_t_def truthy_def)
qed


text \<open>The theorem on the three days stored newest first.\<close>

theorem scenario_heat_insight_and_trends_witness:
  "''2024-07-01'' < ''2024-07-02'' \<and> ''2024-07-02'' < ''2024-07-03''
   \<and> weather_daily scenario_reversed =
       [scenario_row ''Sochi'' ''2024-07-03'' 32 21 (Some 0) ''2024-07-03T06:00:00'',
        scenario_row ''Sochi'' ''2024-07-02'' 28 19 None ''2024-07-02T06:00:00'',
        scenario_row ''Sochi'' ''2024-07-01'' 30 20 (Some 4) ''2024-07-01T06:00:00'']
   \<and> generate_insights scenario_reversed = [heat_insight ''Sochi'' 30]
   \<and> map (map trend_avg \<circ> snd) (analyze_temperature_trends scenario_reversed)
       = [[Some 25, Some (47 / 2), Some (53 / 2)]]"
proof -
  have a: "''2024-07-01'' < ''2024-07-02''" and b: "''2024-07-02'' < ''2024-07-03''"
    by code_simp+
  have rows: "weather_daily scenario_reversed =
       [scenario_row ''Sochi'' ''2024-07-03'' 32 21 (Some 0) ''2024-07-03T06:00:00'',
        scenario_row ''Sochi'' ''2024-07-02'' 28 19 None ''2024-07-02T06:00:00'',
        scenario_row ''Sochi'' ''2024-07-01'' 30 20 (Some 4) ''2024-07-01T06:00:00'']"
    by (simp add: scenario_reversed_def)
  have m: "mset (weather_daily scenario_reversed) =
       {#scenario_row ''Sochi'' ''2024-07-01'' 30 20 (Some 4) ''2024-07-01T06:00:00'',
         scenario_row ''Sochi'' ''2024-07-02'' 28 19 None ''2024-07-02T06:00:00'',
         scenario_row ''Sochi'' ''2024-07-03'' 32 21 (Some 0) ''2024-07-03T06:00:00''#}"
    unfolding rows by (simp add: add_mset_commute)
  have dry: "concat (map precipitation_insights (precipitation_stats scenario_reversed)) = []"
    by code_simp
  from scenario_heat_insight_and_trends[OF a b m] a b rows dry
  show ?thesis by simp
qed

end
